theory Spec2Isabelle
  imports Main "HOL-Library.List_Lexorder" "HOL-Library.Char_ord" "HOL-Library.Multiset"
begin

unbundle bit_operations_syntax

chapter \<open>Propsd: the sources, the plugin manager and the secret transformer\<close>

text \<open>
  A shallow embedding of the parts of Propsd whose properties are proved below.  Every JavaScript
  object that the code mutates is a record or an association list that the model's functions
  take and return; every \<^verbatim>\<open>throw\<close> and every rejected promise is a value.  Collaborators
  whose code is not part of the sources (the object store, the Consul agent, the secret
  broker, \<^verbatim>\<open>StringTemplate\<close>) are parameters of the functions that call them.
\<close>

section \<open>JavaScript objects as association lists\<close>

text \<open>
  An object is the list of its own enumerable properties in enumeration order.
  \<^verbatim>\<open>o[k] = v\<close> replaces the value in place when \<^verbatim>\<open>k\<close> is present and appends the
  property otherwise; \<^verbatim>\<open>delete o[k]\<close> removes it.
\<close>

primrec obj_set :: "string \<Rightarrow> 'v \<Rightarrow> (string \<times> 'v) list \<Rightarrow> (string \<times> 'v) list" where
  "obj_set k v [] = [(k, v)]"
| "obj_set k v (p # ps) = (if fst p = k then (k, v) # ps else p # obj_set k v ps)"

primrec obj_delete :: "string \<Rightarrow> (string \<times> 'v) list \<Rightarrow> (string \<times> 'v) list" where
  "obj_delete k [] = []"
| "obj_delete k (p # ps) = (if fst p = k then obj_delete k ps else p # obj_delete k ps)"

primrec obj_get :: "(string \<times> 'v) list \<Rightarrow> string \<Rightarrow> 'v option" where
  "obj_get [] k = None"
| "obj_get (p # ps) k = (if fst p = k then Some (snd p) else obj_get ps k)"

definition obj_keys :: "(string \<times> 'v) list \<Rightarrow> string list" where
  "obj_keys ps = map fst ps"

section \<open>JavaScript values\<close>

text \<open>
  The values the code handles are what \<^verbatim>\<open>JSON.parse\<close> returns, and \<^verbatim>\<open>undefined\<close>.  A number
  is an integer here: the code never computes with a number, it only tests, copies and prints
  it, and numbers with a fraction are left out of the model.
\<close>

datatype jsval =
  JUndefined | JNull | JBool bool | JNum int | JStr string | JArr "jsval list"
| JObj "(string \<times> jsval) list"

text \<open>What a \<^verbatim>\<open>throw\<close> carries: an \<^verbatim>\<open>Error\<close> with its message, or a \<^verbatim>\<open>TypeError\<close> of the
  engine or of a library (its message is not modelled).\<close>

datatype js_error = Error string | TypeError

text \<open>\<^verbatim>\<open>typeof v === 'object'\<close>, and the truth value of \<^verbatim>\<open>v\<close> in a condition.\<close>

fun typeof_object :: "jsval \<Rightarrow> bool" where
  "typeof_object JNull = True"
| "typeof_object (JArr vs) = True"
| "typeof_object (JObj ps) = True"
| "typeof_object v = False"

fun truthy :: "jsval \<Rightarrow> bool" where
  "truthy JUndefined = False"
| "truthy JNull = False"
| "truthy (JBool b) = b"
| "truthy (JNum n) = (n \<noteq> 0)"
| "truthy (JStr s) = (s \<noteq> [])"
| "truthy v = True"

text \<open>\<^verbatim>\<open>lodash.isplainobject\<close> on such a value, which is also
  \<^verbatim>\<open>v != null && Object.getPrototypeOf(v) === Object.prototype\<close>.\<close>

fun isPlainObject :: "jsval \<Rightarrow> bool" where
  "isPlainObject (JObj ps) = True"
| "isPlainObject v = False"

text \<open>The property read \<^verbatim>\<open>v[k]\<close> on an object, \<^verbatim>\<open>undefined\<close> when there is none.\<close>

definition js_prop :: "jsval \<Rightarrow> string \<Rightarrow> jsval" where
  "js_prop v k = (case v of JObj ps \<Rightarrow> (case obj_get ps k of Some x \<Rightarrow> x | None \<Rightarrow> JUndefined)
                  | _ \<Rightarrow> JUndefined)"

subsection \<open>Printing\<close>

definition digit_char :: "nat \<Rightarrow> char" where
  "digit_char d = char_of (48 + d)"

fun show_nat :: "nat \<Rightarrow> string" where
  "show_nat n = (if n < 10 then [digit_char n] else show_nat (n div 10) @ [digit_char (n mod 10)])"

definition show_int :: "int \<Rightarrow> string" where
  "show_int i = (if i < 0 then CHR ''-'' # show_nat (nat (- i)) else show_nat (nat i))"

text \<open>The own enumerable properties of an array: its indices, in order.\<close>

primrec indexed_from :: "nat \<Rightarrow> 'a list \<Rightarrow> (string \<times> 'a) list" where
  "indexed_from i [] = []"
| "indexed_from i (v # vs) = (show_nat i, v) # indexed_from (Suc i) vs"

text \<open>The string a template literal \<^verbatim>\<open>`${v}`\<close> puts in for \<^verbatim>\<open>v\<close>.  An array prints its elements
  separated by commas, \<^verbatim>\<open>null\<close> and \<^verbatim>\<open>undefined\<close> among them as nothing.\<close>

fun js_string :: "jsval \<Rightarrow> string"
  and js_join :: "jsval list \<Rightarrow> string" where
  "js_string JUndefined = ''undefined''"
| "js_string JNull = ''null''"
| "js_string (JBool b) = (if b then ''true'' else ''false'')"
| "js_string (JNum n) = show_int n"
| "js_string (JStr s) = s"
| "js_string (JArr vs) = js_join vs"
| "js_string (JObj ps) = ''[object Object]''"
| "js_join [] = []"
| "js_join (v # vs) =
     (if v = JNull \<or> v = JUndefined then [] else js_string v) @
     (if vs = [] then [] else CHR '','' # js_join vs)"



text \<open>\<^verbatim>\<open>Object.assign(target, source)\<close> on the properties of the two objects.\<close>

definition Object_assign :: "(string \<times> 'v) list \<Rightarrow> (string \<times> 'v) list \<Rightarrow> (string \<times> 'v) list" where
  "Object_assign target source = foldl (\<lambda>t p. obj_set (fst p) (snd p) t) target source"

section \<open>The S3 source\<close>

text \<open>
  An \<^verbatim>\<open>S3\<close> source as its constructor builds it: \<open>options\<close> is the object handed on to the
  base class \<^verbatim>\<open>Source\<close> (it carries \<^verbatim>\<open>type\<close> and \<^verbatim>\<open>name\<close>), \<open>bucket\<close>, \<open>path\<close> and
  \<open>etag\<close> are the fields the class sets itself; \<open>None\<close> is the etag \<^verbatim>\<open>null\<close>.
\<close>

record s3_source =
  options :: "(string \<times> jsval) list"
  bucket :: jsval
  path :: jsval
  etag :: "string option"



subsection \<open>One conditional fetch\<close>

text \<open>
  \<^verbatim>\<open>S3._fetch\<close> calls \<^verbatim>\<open>getObject({Bucket, Key, IfNoneMatch: this.etag}, cb)\<close> and classifies
  what the object store answers.  The object store is a parameter: a function from the
  request to its answer, which is an error carrying a \<^verbatim>\<open>code\<close>, or the data with its
  \<^verbatim>\<open>ETag\<close> and \<^verbatim>\<open>Body\<close>.
\<close>

record s3_request =
  Bucket :: jsval
  Key :: jsval
  IfNoneMatch :: "string option"

record aws_error =
  code :: string
  message :: string

datatype s3_response = Failure aws_error | Data (ETag: string) (Body: string)

text \<open>
  What \<^verbatim>\<open>_fetch\<close> hands to its callback: \<^verbatim>\<open>callback(err)\<close>, or \<^verbatim>\<open>callback(null, x)\<close> where
  \<^verbatim>\<open>x\<close> is \<^verbatim>\<open>Source.NO_UPDATE\<close>, \<^verbatim>\<open>Source.NO_EXIST\<close> or the body of the object.
\<close>

datatype fetch_result = NO_UPDATE | NO_EXIST | FetchError aws_error | FetchedBody string

definition fetch_request :: "s3_source \<Rightarrow> s3_request" where
  "fetch_request src = \<lparr>Bucket = bucket src, Key = path src, IfNoneMatch = etag src\<rparr>"

definition fetch :: "(s3_request \<Rightarrow> s3_response) \<Rightarrow> s3_source \<Rightarrow> s3_source \<times> fetch_result" where
  "fetch getObject src =
     (case getObject (fetch_request src) of
        Failure err \<Rightarrow>
          (if code err = ''NotModified'' then (src, NO_UPDATE)
           else if code err = ''NoSuchKey'' then (src, NO_EXIST)
           else (src, FetchError err))
      | Data tag body \<Rightarrow> (src\<lparr>etag := Some tag\<rparr>, FetchedBody body))"

section \<open>The Consul source\<close>

text \<open>
  The state of the \<^verbatim>\<open>Consul\<close> source that its two change handlers read and write.
  A watcher returned by \<^verbatim>\<open>consul.watch\<close> is identified by its position among the watchers
  created so far (\<open>watched\<close> lists the options each was created with); \<open>ended\<close> lists
  the watchers on which \<^verbatim>\<open>end()\<close> was called.  \<open>healthWatchers\<close> is
  \<^verbatim>\<open>this._healthWatchers\<close>, \<open>None\<close> while the field is undefined.  \<open>properties\<close> maps a
  watcher name to the \<^verbatim>\<open>addresses\<close> of \<^verbatim>\<open>this.properties[name]\<close>.
\<close>

record watch_options =
  passing :: bool
  service :: string
  tag :: "string option"

record watcher_info =
  info_name :: string
  info_options :: watch_options

record consul =
  properties :: "(string \<times> string list) list"
  healthWatchers :: "(string \<times> nat) list option"
  okay :: bool
  watched :: "watch_options list"
  ended :: "nat list"
  updates :: "(string \<times> string list) list list"

text \<open>The source as its constructor leaves it.\<close>

definition new_Consul :: consul where
  "new_Consul = \<lparr>properties = [], healthWatchers = None, okay = False, watched = [], ended = [],
                  updates = []\<rparr>"

text \<open>
  One entry of the health/service answer, as the source documents it:
  \<^verbatim>\<open>{Node: {Address}, Service: {Address}}\<close>, each part optional.
\<close>

record health_info =
  Node_Address :: "string option option"
  Service_Address :: "string option option"

text \<open>\<^verbatim>\<open>info.Service && info.Service.Address\<close>: the object is there and its address is a
  non-empty string.\<close>

definition truthy_address :: "string option option \<Rightarrow> bool" where
  "truthy_address a = (case a of Some (Some s) \<Rightarrow> s \<noteq> [] | _ \<Rightarrow> False)"

definition pushed_address :: "health_info \<Rightarrow> string list" where
  "pushed_address info =
     (if truthy_address (Service_Address info) then [the (the (Service_Address info))]
      else if truthy_address (Node_Address info) then [the (the (Node_Address info))]
      else [])"

definition hasHealthWatcher :: "consul \<Rightarrow> string \<Rightarrow> bool" where
  "hasHealthWatcher c name =
     (case healthWatchers c of None \<Rightarrow> False | Some ws \<Rightarrow> obj_get ws name \<noteq> None)"

definition registerHealthWatcher :: "string \<Rightarrow> nat \<Rightarrow> consul \<Rightarrow> consul" where
  "registerHealthWatcher name watcher c =
     c\<lparr>healthWatchers :=
         Some (obj_set name watcher (case healthWatchers c of None \<Rightarrow> [] | Some ws \<Rightarrow> ws))\<rparr>"

definition unregisterHealthWatcher :: "string \<Rightarrow> consul \<Rightarrow> consul" where
  "unregisterHealthWatcher name c =
     (case healthWatchers c of
        None \<Rightarrow> c
      | Some ws \<Rightarrow>
          (case obj_get ws name of
             None \<Rightarrow> c
           | Some w \<Rightarrow> c\<lparr>ended := ended c @ [w], healthWatchers := Some (obj_delete name ws)\<rparr>))"

definition service_watcher_info :: "string \<times> string list \<Rightarrow> watcher_info list" where
  "service_watcher_info entry =
     (if length (snd entry) > 0
      then map (\<lambda>t. \<lparr>info_name = fst entry @ ''-'' @ t,
                     info_options = \<lparr>passing = True, service = fst entry, tag = Some t\<rparr>\<rparr>)
             (snd entry)
      else [\<lparr>info_name = fst entry,
             info_options = \<lparr>passing = True, service = fst entry, tag = None\<rparr>\<rparr>])"

definition watcherInfo :: "(string \<times> string list) list \<Rightarrow> watcher_info list" where
  "watcherInfo data = concat (map service_watcher_info data)"

definition watch_health :: "consul \<Rightarrow> watcher_info \<Rightarrow> consul" where
  "watch_health c info =
     registerHealthWatcher (info_name info) (length (watched c))
       (c\<lparr>watched := watched c @ [info_options info]\<rparr>)"

definition onServiceListChange :: "(string \<times> string list) list \<Rightarrow> consul \<Rightarrow> consul" where
  "onServiceListChange data c =
     (foldl watch_health c
        (filter (\<lambda>info. \<not> hasHealthWatcher c (info_name info)) (watcherInfo data)))
     \<lparr>okay := True\<rparr>"

definition onHealthServiceChange :: "string \<Rightarrow> health_info list \<Rightarrow> consul \<Rightarrow> consul" where
  "onHealthServiceChange name data c =
     (let c' =
        (if length data > 0
         then c\<lparr>properties := obj_set name (sort (concat (map pushed_address data))) (properties c)\<rparr>
         else (unregisterHealthWatcher name c)\<lparr>properties := obj_delete name (properties c)\<rparr>)
      in c'\<lparr>okay := True, updates := updates c' @ [properties c']\<rparr>)"

definition watcher_names :: "consul \<Rightarrow> string set" where
  "watcher_names c = (case healthWatchers c of None \<Rightarrow> {} | Some ws \<Rightarrow> set (obj_keys ws))"

definition watcher_of :: "consul \<Rightarrow> string \<Rightarrow> nat option" where
  "watcher_of c name = (case healthWatchers c of None \<Rightarrow> None | Some ws \<Rightarrow> obj_get ws name)"

section \<open>The Conqueso route\<close>

text \<open>
  Express keeps the handlers of a route in the order they were added; a request is answered
  by the first handler added for its method or with \<^verbatim>\<open>all\<close>.  A response starts with status
  200 and no header; \<^verbatim>\<open>res.set\<close> adds a header, \<^verbatim>\<open>res.status\<close> sets the status and
  \<^verbatim>\<open>res.end\<close> sends the body.
\<close>

datatype http_method =
  GET | HEAD | POST | PUT | DELETE | OPTIONS | PATCH | TRACE | CONNECT | OtherMethod string

record http_response =
  status :: nat
  headers :: "(string \<times> string) list"
  body :: string

definition fresh_response :: http_response where
  "fresh_response = \<lparr>status = 200, headers = [], body = []\<rparr>"

definition HTTP_OK :: nat where
  "HTTP_OK = 200"

definition HTTP_METHOD_NOT_ALLOWED :: nat where
  "HTTP_METHOD_NOT_ALLOWED = 405"

type_synonym layer = "http_method option \<times> (http_response \<Rightarrow> http_response)"

primrec first_layer :: "layer list \<Rightarrow> http_method \<Rightarrow> http_response option" where
  "first_layer [] m = None"
| "first_layer (l # ls) m =
     (if fst l = None \<or> fst l = Some m then Some (snd l fresh_response) else first_layer ls m)"

text \<open>A HEAD request is answered as a GET request when no handler was added for HEAD.\<close>

definition dispatch :: "layer list \<Rightarrow> http_method \<Rightarrow> http_response option" where
  "dispatch ls m =
     first_layer ls (if m = HEAD \<and> Some HEAD \<notin> set (map fst ls) then GET else m)"

text \<open>The route of the Conqueso API that serves the properties
  (\<^verbatim>\<open>Conqueso(app, storage)\<close>); \<open>text\<close> is \<^verbatim>\<open>makeConquesoProperties(storage.properties)\<close>.\<close>

definition allowedMethods :: string where
  "allowedMethods = ''GET,POST,PUT,OPTIONS''"

definition methodNotAllowed :: "http_response \<Rightarrow> http_response" where
  "methodNotAllowed res =
     res\<lparr>headers := obj_set ''Allow'' allowedMethods (headers res), status := HTTP_METHOD_NOT_ALLOWED\<rparr>"

definition Conqueso :: "string \<Rightarrow> layer list" where
  "Conqueso text =
     [(Some GET, \<lambda>res. res\<lparr>headers := obj_set ''Content-Type'' ''text/plain'' (headers res),
                            status := HTTP_OK, body := text\<rparr>),
      (Some HEAD, methodNotAllowed),
      (Some POST, \<lambda>res. res\<lparr>status := HTTP_OK\<rparr>),
      (Some PUT, \<lambda>res. res\<lparr>status := HTTP_OK\<rparr>),
      (Some OPTIONS, \<lambda>res. res\<lparr>headers := obj_set ''Allow'' allowedMethods (headers res),
                                status := HTTP_OK\<rparr>),
      (None, methodNotAllowed)]"

text \<open>The earlier form of the same module (\<^verbatim>\<open>Conqueso(app)\<close> in
  \<^verbatim>\<open>lib/control/v1/conqueso.js\<close>), which adds three handlers and serves no GET; a method
  it has no handler for is not answered by this module (\<open>None\<close>).\<close>

definition Conqueso_stub :: "layer list" where
  "Conqueso_stub =
     [(Some POST, \<lambda>res. res\<lparr>status := HTTP_OK\<rparr>),
      (Some PUT, \<lambda>res. res\<lparr>status := HTTP_OK\<rparr>),
      (Some DELETE, \<lambda>res. res\<lparr>headers := obj_set ''Allow'' ''POST,PUT'' (headers res),
                               status := HTTP_METHOD_NOT_ALLOWED\<rparr>)]"

section \<open>The plugin manager\<close>

subsection \<open>Interpolating the index\<close>

text \<open>\<^verbatim>\<open>array.map(f)\<close> with an \<^verbatim>\<open>f\<close> that may throw: the first throw ends the map.\<close>

primrec map_throwing :: "('a \<Rightarrow> js_error + 'b) \<Rightarrow> 'a list \<Rightarrow> js_error + 'b list" where
  "map_throwing f [] = Inr []"
| "map_throwing f (x # xs) =
     (case f x of
        Inl e \<Rightarrow> Inl e
      | Inr y \<Rightarrow> (case map_throwing f xs of Inl e \<Rightarrow> Inl e | Inr ys \<Rightarrow> Inr (y # ys)))"

text \<open>
  \<^verbatim>\<open>iter(obj, callback)\<close> walks the own enumerable properties of \<^verbatim>\<open>obj\<close> in order and collects
  them in a new object: a property whose \<^verbatim>\<open>typeof\<close> is \<^verbatim>\<open>'object'\<close> (an object, an array,
  \<^verbatim>\<open>null\<close>) is walked in turn, every other is replaced by what the callback returns for it.
  The first callback that throws ends the walk.  The properties of an array are its indices,
  those of a string its characters, and \<^verbatim>\<open>null\<close>, a number and a boolean have none.
\<close>

fun iter :: "(string \<Rightarrow> jsval \<Rightarrow> js_error + jsval) \<Rightarrow> jsval \<Rightarrow> js_error + (string \<times> jsval) list"
  and iter_props ::
    "(string \<Rightarrow> jsval \<Rightarrow> js_error + jsval) \<Rightarrow> (string \<times> jsval) list \<Rightarrow> js_error + (string \<times> jsval) list"
  and iter_items ::
    "(string \<Rightarrow> jsval \<Rightarrow> js_error + jsval) \<Rightarrow> nat \<Rightarrow> jsval list \<Rightarrow> js_error + (string \<times> jsval) list"
  where
  "iter cb (JObj ps) = iter_props cb ps"
| "iter cb (JArr vs) = iter_items cb 0 vs"
| "iter cb (JStr s) =
     map_throwing (\<lambda>p. map_sum id (Pair (fst p)) (cb (fst p) (snd p)))
       (indexed_from 0 (map (\<lambda>c. JStr [c]) s))"
| "iter cb JUndefined = Inr []"
| "iter cb JNull = Inr []"
| "iter cb (JBool b) = Inr []"
| "iter cb (JNum n) = Inr []"
| "iter_props cb [] = Inr []"
| "iter_props cb (p # ps) =
     (case (if typeof_object (snd p) then map_sum id JObj (iter cb (snd p)) else cb (fst p) (snd p)) of
        Inl e \<Rightarrow> Inl e
      | Inr v \<Rightarrow> (case iter_props cb ps of Inl e \<Rightarrow> Inl e | Inr ps' \<Rightarrow> Inr ((fst p, v) # ps')))"
| "iter_items cb i [] = Inr []"
| "iter_items cb i (x # xs) =
     (case (if typeof_object x then map_sum id JObj (iter cb x) else cb (show_nat i) x) of
        Inl e \<Rightarrow> Inl e
      | Inr v \<Rightarrow> (case iter_items cb (Suc i) xs of Inl e \<Rightarrow> Inl e | Inr ps' \<Rightarrow> Inr ((show_nat i, v) # ps')))"


subsection \<open>The storage\<close>



subsection \<open>The manager\<close>

text \<open>
  What the manager emits, in the order of the \<^verbatim>\<open>emit\<close> calls: \<^verbatim>\<open>error\<close>,
  \<^verbatim>\<open>sources-generated\<close>, \<^verbatim>\<open>source-instantiated\<close>, \<^verbatim>\<open>source-registered\<close>,
  \<^verbatim>\<open>source-initialized\<close> and \<^verbatim>\<open>sources-registered\<close>.
\<close>

datatype manager_event =
  Error_event js_error
| Sources_generated "(string \<times> jsval) list list"
| Source_instantiated s3_source
| Source_registered s3_source
| Source_initialized s3_source
| Sources_registered "s3_source list"











subsection \<open>Notions to state the properties with\<close>

text \<open>The events of one kind in a trace, and the part of a list past its first \<open>n\<close>
  elements.\<close>

fun error_events :: "manager_event list \<Rightarrow> js_error list" where
  "error_events [] = []"
| "error_events (Error_event e # evs) = e # error_events evs"
| "error_events (ev # evs) = error_events evs"

fun registered_events :: "manager_event list \<Rightarrow> s3_source list" where
  "registered_events [] = []"
| "registered_events (Source_registered s # evs) = s # registered_events evs"
| "registered_events (ev # evs) = registered_events evs"







section \<open>The secret transformer\<close>

subsection \<open>What the Immutable library does\<close>

text \<open>
  \<^verbatim>\<open>Immutable.OrderedMap(v)\<close> and \<^verbatim>\<open>map.mergeDeep(v)\<close> read \<^verbatim>\<open>v\<close> as a keyed collection:
  \<^verbatim>\<open>null\<close> and \<^verbatim>\<open>undefined\<close> as the empty one, an object as its properties, an array as a
  list of \<^verbatim>\<open>[key, value]\<close> entries (an entry that is \<^verbatim>\<open>null\<close>, \<^verbatim>\<open>false\<close>, \<^verbatim>\<open>0\<close> or the empty
  string is skipped), and they throw a \<^verbatim>\<open>TypeError\<close> for a boolean, a number and a string,
  and for an entry that is one of these.  The model follows an entry whose key is a
  string; an entry with another key is outside it and throws as well.
\<close>

fun keyed_entry :: "jsval \<Rightarrow> js_error + (string \<times> jsval)" where
  "keyed_entry (JArr (JStr k # v # rest)) = Inr (k, v)"
| "keyed_entry (JArr [JStr k]) = Inr (k, JUndefined)"
| "keyed_entry e = Inl TypeError"

primrec keyed_entries :: "jsval list \<Rightarrow> js_error + (string \<times> jsval) list" where
  "keyed_entries [] = Inr []"
| "keyed_entries (e # es) =
     (if \<not> truthy e then keyed_entries es
      else (case keyed_entry e of
              Inl err \<Rightarrow> Inl err
            | Inr p \<Rightarrow> (case keyed_entries es of Inl err \<Rightarrow> Inl err | Inr ps \<Rightarrow> Inr (p # ps))))"

fun KeyedIterable :: "jsval \<Rightarrow> js_error + (string \<times> jsval) list" where
  "KeyedIterable JUndefined = Inr []"
| "KeyedIterable JNull = Inr []"
| "KeyedIterable (JObj ps) = Inr ps"
| "KeyedIterable (JArr es) = map_sum id (Object_assign []) (keyed_entries es)"
| "KeyedIterable (JBool b) = Inl TypeError"
| "KeyedIterable (JNum n) = Inl TypeError"
| "KeyedIterable (JStr s) = Inl TypeError"

text \<open>
  The values of \<^verbatim>\<open>Immutable.Map().setIn(keyPath, v)\<close>: maps nested along the key path with
  \<^verbatim>\<open>v\<close> at its end, and \<^verbatim>\<open>v\<close> itself when the key path is empty.  A map lists its entries in
  the order they were set.
\<close>

datatype overlay = Raw jsval | IMap "(string \<times> overlay) list"

primrec setIn :: "string list \<Rightarrow> jsval \<Rightarrow> overlay" where
  "setIn [] v = Raw v"
| "setIn (k # ks) v = IMap [(k, setIn ks v)]"

text \<open>
  \<^verbatim>\<open>a.mergeDeep(b)\<close> for two maps: an entry of \<^verbatim>\<open>b\<close> is merged into the entry of \<^verbatim>\<open>a\<close> with
  its key when both values are maps, and replaces it or is added otherwise.
\<close>

fun merge_entries :: "(string \<times> overlay) list \<Rightarrow> (string \<times> overlay) list \<Rightarrow> (string \<times> overlay) list"
  and deepMerger :: "overlay option \<Rightarrow> overlay \<Rightarrow> overlay" where
  "merge_entries a [] = a"
| "merge_entries a (p # ps) = merge_entries (obj_set (fst p) (deepMerger (obj_get a (fst p)) (snd p)) a) ps"
| "deepMerger (Some (IMap a)) (IMap b) = IMap (merge_entries a b)"
| "deepMerger existing v = v"

text \<open>\<^verbatim>\<open>transformedProperties.mergeDeep(value)\<close> for what a promise of \<^verbatim>\<open>transform\<close> resolves
  to: a map, or the value that \<^verbatim>\<open>setIn\<close> returned for the empty key path.\<close>

definition mergeDeep :: "(string \<times> overlay) list \<Rightarrow> overlay \<Rightarrow> js_error + (string \<times> overlay) list" where
  "mergeDeep a v =
     (case v of
        IMap b \<Rightarrow> Inr (merge_entries a b)
      | Raw x \<Rightarrow> map_sum id (\<lambda>ps. merge_entries a (map (\<lambda>p. (fst p, Raw (snd p))) ps)) (KeyedIterable x))"

fun toJS :: "overlay \<Rightarrow> jsval"
  and toJS_entries :: "(string \<times> overlay) list \<Rightarrow> (string \<times> jsval) list" where
  "toJS (Raw v) = v"
| "toJS (IMap m) = JObj (toJS_entries m)"
| "toJS_entries [] = []"
| "toJS_entries (p # ps) = (fst p, toJS (snd p)) # toJS_entries ps"

subsection \<open>Collecting the sentinels\<close>

text \<open>
  \<^verbatim>\<open>collectTransformables(properties, keyPath)\<close>.  A transformable is the ordered map of the
  sentinel's value with the key path set under the key \<^verbatim>\<open>keyPath\<close>; the walk throws what
  \<^verbatim>\<open>Immutable.OrderedMap\<close> throws.
\<close>

type_synonym info = "(string \<times> jsval) list"

fun collectTransformables :: "jsval \<Rightarrow> string list \<Rightarrow> js_error + info list"
  and collect_props :: "(string \<times> jsval) list \<Rightarrow> string list \<Rightarrow> js_error + info list" where
  "collectTransformables (JObj ps) keyPath =
     (if obj_keys ps = [''$tokend'']
      then map_sum id (\<lambda>m. [obj_set ''keyPath'' (JArr (map JStr keyPath)) m]) (KeyedIterable (snd (hd ps)))
      else collect_props ps keyPath)"
| "collectTransformables JUndefined keyPath = Inr []"
| "collectTransformables JNull keyPath = Inr []"
| "collectTransformables (JBool b) keyPath = Inr []"
| "collectTransformables (JNum n) keyPath = Inr []"
| "collectTransformables (JStr s) keyPath = Inr []"
| "collectTransformables (JArr vs) keyPath = Inr []"
| "collect_props [] keyPath = Inr []"
| "collect_props (p # ps) keyPath =
     (if isPlainObject (snd p)
      then (case collectTransformables (snd p) (keyPath @ [fst p]) of
              Inl e \<Rightarrow> Inl e
            | Inr found \<Rightarrow>
                (case collect_props ps keyPath of Inl e \<Rightarrow> Inl e | Inr others \<Rightarrow> Inr (found @ others)))
      else collect_props ps keyPath)"

text \<open>\<^verbatim>\<open>info.get(k)\<close> and \<^verbatim>\<open>info.get('keyPath')\<close>.\<close>

definition info_get :: "info \<Rightarrow> string \<Rightarrow> jsval" where
  "info_get info k = (case obj_get info k of Some v \<Rightarrow> v | None \<Rightarrow> JUndefined)"

definition info_keyPath :: "info \<Rightarrow> string list" where
  "info_keyPath info = (case obj_get info ''keyPath'' of Some (JArr ks) \<Rightarrow> map js_string ks | _ \<Rightarrow> [])"

subsection \<open>The signature of a transformable\<close>

text \<open>\<^verbatim>\<open>JSON.stringify\<close>: a property whose value is \<^verbatim>\<open>undefined\<close> is left out of an object,
  and \<^verbatim>\<open>undefined\<close> in an array is printed as \<^verbatim>\<open>null\<close>.\<close>

definition hex_digit :: "nat \<Rightarrow> char" where
  "hex_digit d = (if d < 10 then char_of (48 + d) else char_of (87 + d))"

definition escape_char :: "char \<Rightarrow> string" where
  "escape_char c =
     (if c = CHR 0x22 then [CHR 0x5C, CHR 0x22]
      else if c = CHR 0x5C then [CHR 0x5C, CHR 0x5C]
      else if c = CHR 0x08 then [CHR 0x5C, CHR ''b'']
      else if c = CHR 0x0C then [CHR 0x5C, CHR ''f'']
      else if c = CHR 0x0A then [CHR 0x5C, CHR ''n'']
      else if c = CHR 0x0D then [CHR 0x5C, CHR ''r'']
      else if c = CHR 0x09 then [CHR 0x5C, CHR ''t'']
      else if (of_char c :: nat) < 32
      then [CHR 0x5C, CHR ''u'', CHR ''0'', CHR ''0'', hex_digit (of_char c div 16), hex_digit (of_char c mod 16)]
      else [c])"

definition quote :: "string \<Rightarrow> string" where
  "quote s = CHR 0x22 # concat (map escape_char s) @ [CHR 0x22]"

fun JSON_stringify :: "jsval \<Rightarrow> string"
  and stringify_items :: "jsval list \<Rightarrow> string"
  and stringify_members :: "bool \<Rightarrow> (string \<times> jsval) list \<Rightarrow> string" where
  "JSON_stringify JUndefined = ''null''"
| "JSON_stringify JNull = ''null''"
| "JSON_stringify (JBool b) = (if b then ''true'' else ''false'')"
| "JSON_stringify (JNum n) = show_int n"
| "JSON_stringify (JStr s) = quote s"
| "JSON_stringify (JArr vs) = ''['' @ stringify_items vs @ '']''"
| "JSON_stringify (JObj ps) = ''{'' @ stringify_members True ps @ ''}''"
| "stringify_items [] = []"
| "stringify_items (v # vs) = JSON_stringify v @ (if vs = [] then [] else CHR '','' # stringify_items vs)"
| "stringify_members first [] = []"
| "stringify_members first (p # ps) =
     (if snd p = JUndefined then stringify_members first ps
      else (if first then [] else '','') @ quote (fst p) @ '':'' @ JSON_stringify (snd p) @
           stringify_members False ps)"

text \<open>The bytes of a string in UTF-8, for characters up to U+00FF.\<close>

definition utf8 :: "string \<Rightarrow> int list" where
  "utf8 s = concat (map (\<lambda>c. if (of_char c :: int) < 128 then [of_char c]
                              else [192 + of_char c div 64, 128 + of_char c mod 64]) s)"

text \<open>
  SHA-1 (\<^verbatim>\<open>crypto.createHash('sha1')\<close>) on 32-bit words written as integers, each sum and
  rotation reduced modulo \<open>2 ^ 32\<close>.
\<close>

definition add32 :: "int \<Rightarrow> int \<Rightarrow> int" where
  "add32 a b = (a + b) mod 4294967296"

definition rotl :: "nat \<Rightarrow> int \<Rightarrow> int" where
  "rotl n x = (x * 2 ^ n) mod 4294967296 + x div 2 ^ (32 - n)"

definition not32 :: "int \<Rightarrow> int" where
  "not32 x = 4294967295 - x"

fun be32 :: "int list \<Rightarrow> int list" where
  "be32 (a # b # c # d # rest) = (((a * 256 + b) * 256 + c) * 256 + d) # be32 rest"
| "be32 bs = []"

primrec expand :: "unit list \<Rightarrow> int list \<Rightarrow> int list" where
  "expand [] ws = ws"
| "expand (u # us) ws = expand us (rotl 1 (ws ! 2 XOR ws ! 7 XOR ws ! 13 XOR ws ! 15) # ws)"

definition schedule :: "int list \<Rightarrow> int list" where
  "schedule ws = rev (expand (replicate 64 ()) (rev ws))"

definition sha1_f :: "nat \<Rightarrow> int \<Rightarrow> int \<Rightarrow> int \<Rightarrow> int" where
  "sha1_f t b c d =
    (if t < 20 then (b AND c) OR (not32 b AND d)
     else if t < 40 then b XOR c XOR d
     else if t < 60 then (b AND c) OR (b AND d) OR (c AND d)
     else b XOR c XOR d)"

definition sha1_k :: "nat \<Rightarrow> int" where
  "sha1_k t = (if t < 20 then 0x5A827999 else if t < 40 then 0x6ED9EBA1
               else if t < 60 then 0x8F1BBCDC else 0xCA62C1D6)"

type_synonym sha1_state = "int \<times> int \<times> int \<times> int \<times> int"

fun rounds :: "nat \<Rightarrow> int list \<Rightarrow> int \<Rightarrow> int \<Rightarrow> int \<Rightarrow> int \<Rightarrow> int \<Rightarrow> sha1_state" where
  "rounds t [] a b c d e = (a, b, c, d, e)"
| "rounds t (w # ws) a b c d e =
     rounds (t + 1) ws (add32 (add32 (add32 (add32 (rotl 5 a) (sha1_f t b c d)) e) (sha1_k t)) w)
       a (rotl 30 b) c d"

fun add5 :: "sha1_state \<Rightarrow> sha1_state \<Rightarrow> sha1_state" where
  "add5 (h0, h1, h2, h3, h4) (a, b, c, d, e) =
     (add32 h0 a, add32 h1 b, add32 h2 c, add32 h3 d, add32 h4 e)"

fun compress :: "sha1_state \<Rightarrow> int list \<Rightarrow> sha1_state" where
  "compress (h0, h1, h2, h3, h4) blk =
     add5 (h0, h1, h2, h3, h4) (rounds 0 (schedule (be32 blk)) h0 h1 h2 h3 h4)"

fun chunks64 :: "int list \<Rightarrow> int list list" where
  "chunks64 [] = []"
| "chunks64 (x # xs) = take 64 (x # xs) # chunks64 (drop 64 (x # xs))"

definition be64 :: "int \<Rightarrow> int list" where
  "be64 n = map (\<lambda>i. (n div 256 ^ i) mod 256) [7, 6, 5, 4, 3, 2, 1, 0 :: nat]"

definition pad :: "int list \<Rightarrow> int list" where
  "pad bs = bs @ [128] @ replicate ((119 - length bs mod 64) mod 64) 0 @ be64 (8 * int (length bs))"

definition sha1 :: "int list \<Rightarrow> sha1_state" where
  "sha1 bs = foldl compress (0x67452301, 0xEFCDAB89, 0x98BADCFE, 0x10325476, 0xC3D2E1F0) (chunks64 (pad bs))"

definition word_bytes :: "int \<Rightarrow> int list" where
  "word_bytes w = [w div 16777216, (w div 65536) mod 256, (w div 256) mod 256, w mod 256]"

fun digest :: "sha1_state \<Rightarrow> int list" where
  "digest (h0, h1, h2, h3, h4) = word_bytes h0 @ word_bytes h1 @ word_bytes h2 @ word_bytes h3 @ word_bytes h4"

text \<open>\<^verbatim>\<open>digest('base64')\<close>.\<close>

definition base64_char :: "int \<Rightarrow> char" where
  "base64_char n = ''ABCDEFGHIJKLMNOPQRSTUVWXYZabcdefghijklmnopqrstuvwxyz0123456789+/'' ! nat n"

fun base64 :: "int list \<Rightarrow> string" where
  "base64 (a # b # c # rest) =
     [base64_char (a div 4), base64_char ((a mod 4) * 16 + b div 16),
      base64_char ((b mod 16) * 4 + c div 64), base64_char (c mod 64)] @ base64 rest"
| "base64 [a, b] =
     [base64_char (a div 4), base64_char ((a mod 4) * 16 + b div 16), base64_char ((b mod 16) * 4), CHR ''='']"
| "base64 [a] = [base64_char (a div 4), base64_char ((a mod 4) * 16), CHR ''='', CHR ''='']"
| "base64 [] = []"

text \<open>
  \<^verbatim>\<open>crypto.createHash('sha1').update(JSON.stringify(info.toJS())).digest('base64')\<close>:
  \<^verbatim>\<open>info.toJS()\<close> is the object with the entries of the ordered map, the key path among them.
\<close>

definition signature :: "info \<Rightarrow> string" where
  "signature info = base64 (digest (sha1 (utf8 (JSON_stringify (JObj info)))))"

subsection \<open>Resolving the sentinels\<close>

text \<open>
  A call of the broker's client, \<^verbatim>\<open>this._client.get(resource)\<close> or
  \<^verbatim>\<open>this._client.post(resource, payload)\<close>, and what the promise it returns settles to.  The
  client is a parameter of \<open>transform\<close>: a function from the call to its answer.
\<close>

datatype request = Get jsval | Post jsval "(string \<times> jsval) list"

datatype broker_answer = Rejects js_error | Resolves jsval

text \<open>The payload of a \<^verbatim>\<open>kms\<close> sentinel: \<^verbatim>\<open>region\<close> and \<^verbatim>\<open>datakey\<close> are added when the
  sentinel has a value for them that is true in a condition and is not the empty string.\<close>

definition kms_payload :: "info \<Rightarrow> (string \<times> jsval) list" where
  "kms_payload info =
     [(''key'', JStr ''KMS''), (''ciphertext'', info_get info ''ciphertext'')] @
     (if truthy (info_get info ''region'') \<and> info_get info ''region'' \<noteq> JStr ''''
      then [(''region'', info_get info ''region'')] else []) @
     (if truthy (info_get info ''datakey'') \<and> info_get info ''datakey'' \<noteq> JStr ''''
      then [(''datakey'', info_get info ''datakey'')] else [])"

text \<open>The \<^verbatim>\<open>switch\<close> on \<^verbatim>\<open>info.get('type')\<close>: the call it makes, \<open>None\<close> in the default case.\<close>

definition request_of :: "info \<Rightarrow> request option" where
  "request_of info =
     (if info_get info ''type'' = JStr ''generic'' then Some (Get (info_get info ''resource''))
      else if info_get info ''type'' = JStr ''transit''
      then Some (Post (info_get info ''resource'')
                   [(''key'', info_get info ''key''), (''ciphertext'', info_get info ''ciphertext'')])
      else if info_get info ''type'' = JStr ''kms''
      then Some (Post (info_get info ''resource'') (kms_payload info))
      else None)"

text \<open>
  \<^verbatim>\<open>data.hasOwnProperty('plaintext')\<close> and \<^verbatim>\<open>data.plaintext\<close>: \<open>None\<close> when the data has no
  such property, and when the test itself throws (the data is \<^verbatim>\<open>null\<close> or \<^verbatim>\<open>undefined\<close>, or
  has a property \<^verbatim>\<open>hasOwnProperty\<close> of its own), which the \<^verbatim>\<open>catch\<close> turns into the same
  \<^verbatim>\<open>null\<close>.
\<close>

definition plaintext_of :: "jsval \<Rightarrow> jsval option" where
  "plaintext_of data =
     (case data of
        JObj ps \<Rightarrow> if obj_get ps ''hasOwnProperty'' \<noteq> None then None else obj_get ps ''plaintext''
      | _ \<Rightarrow> None)"

text \<open>
  The three ways one transformable is dealt with by the function mapped over the
  transformables: its signature is a key of the cache; or its type is one of the three and the
  broker is called; or its type is unknown.
\<close>

definition cache_hit :: "(string \<times> jsval) list \<Rightarrow> info \<Rightarrow> bool" where
  "cache_hit cache info = (signature info \<in> set (obj_keys cache))"

definition issued :: "(string \<times> jsval) list \<Rightarrow> info \<Rightarrow> request option" where
  "issued cache info = (if cache_hit cache info then None else request_of info)"

text \<open>What the promise of one transformable resolves to.  \<open>cache\<close> is the cache when
  \<open>transform\<close> was called: every test of the cache is made before any promise settles.\<close>

definition resolved_value :: "(request \<Rightarrow> broker_answer) \<Rightarrow> (string \<times> jsval) list \<Rightarrow> info \<Rightarrow> jsval" where
  "resolved_value broker cache info =
     (if cache_hit cache info then js_prop (the (obj_get cache (signature info))) ''plaintext''
      else (case request_of info of
              None \<Rightarrow> JNull
            | Some req \<Rightarrow>
                (case broker req of
                   Rejects err \<Rightarrow> JNull
                 | Resolves data \<Rightarrow> (case plaintext_of data of None \<Rightarrow> JNull | Some p \<Rightarrow> p))))"

definition resolved_overlay :: "(request \<Rightarrow> broker_answer) \<Rightarrow> (string \<times> jsval) list \<Rightarrow> info \<Rightarrow> overlay" where
  "resolved_overlay broker cache info = setIn (info_keyPath info) (resolved_value broker cache info)"

text \<open>\<^verbatim>\<open>this._cache[signature] = data\<close>, done when the broker was called and its data has a
  plaintext.\<close>

definition cache_after :: "(request \<Rightarrow> broker_answer) \<Rightarrow> (string \<times> jsval) list \<Rightarrow> (string \<times> jsval) list \<Rightarrow> info
    \<Rightarrow> (string \<times> jsval) list" where
  "cache_after broker cache0 cache info =
     (case issued cache0 info of
        None \<Rightarrow> cache
      | Some req \<Rightarrow>
          (case broker req of
             Rejects err \<Rightarrow> cache
           | Resolves data \<Rightarrow> if plaintext_of data = None then cache else obj_set (signature info) data cache))"

text \<open>The function given to \<^verbatim>\<open>Promise.all(promises).then\<close>: the overlays are merged in order
  into an empty map; a throw of \<^verbatim>\<open>mergeDeep\<close> rejects the promise \<open>transform\<close> returns.\<close>

primrec merge_all :: "(string \<times> overlay) list \<Rightarrow> overlay list \<Rightarrow> js_error + (string \<times> overlay) list" where
  "merge_all acc [] = Inr acc"
| "merge_all acc (v # vs) = (case mergeDeep acc v of Inl e \<Rightarrow> Inl e | Inr acc' \<Rightarrow> merge_all acc' vs)"

text \<open>
  \<^verbatim>\<open>transform(properties)\<close>: what the call comes to (it throws, or the promise is rejected, or
  the promise resolves to the overlay), the cache afterwards, and the calls of the broker.
\<close>

datatype outcome = Throws js_error | Rejected js_error | Resolved jsval

record transformed =
  result :: outcome
  cache :: "(string \<times> jsval) list"
  calls :: "request list"

definition transform :: "(request \<Rightarrow> broker_answer) \<Rightarrow> (string \<times> jsval) list \<Rightarrow> jsval \<Rightarrow> transformed" where
  "transform broker cache0 properties_tree =
     (case collectTransformables properties_tree [] of
        Inl e \<Rightarrow> \<lparr>result = Throws e, cache = cache0, calls = []\<rparr>
      | Inr infos \<Rightarrow>
          \<lparr>result = (case merge_all [] (map (resolved_overlay broker cache0) infos) of
                       Inl e \<Rightarrow> Rejected e
                     | Inr m \<Rightarrow> Resolved (JObj (toJS_entries m))),
           cache = foldl (cache_after broker cache0) cache0 infos,
           calls = concat (map (\<lambda>info. case issued cache0 info of None \<Rightarrow> [] | Some req \<Rightarrow> [req]) infos)\<rparr>)"

text \<open>\<^verbatim>\<open>_expireCache\<close> empties the cache each time its timer fires.\<close>

definition expireCache :: "(string \<times> jsval) list" where
  "expireCache = []"

text \<open>A mapping whose sole key is \<^verbatim>\<open>$tokend\<close>, anywhere in a tree.\<close>

fun contains_sentinel :: "jsval \<Rightarrow> bool"
  and contains_sentinel_list :: "jsval list \<Rightarrow> bool"
  and contains_sentinel_props :: "(string \<times> jsval) list \<Rightarrow> bool" where
  "contains_sentinel (JObj ps) = (obj_keys ps = [''$tokend''] \<or> contains_sentinel_props ps)"
| "contains_sentinel (JArr vs) = contains_sentinel_list vs"
| "contains_sentinel JUndefined = False"
| "contains_sentinel JNull = False"
| "contains_sentinel (JBool b) = False"
| "contains_sentinel (JNum n) = False"
| "contains_sentinel (JStr s) = False"
| "contains_sentinel_list [] = False"
| "contains_sentinel_list (v # vs) = (contains_sentinel v \<or> contains_sentinel_list vs)"
| "contains_sentinel_props [] = False"
| "contains_sentinel_props (p # ps) = (contains_sentinel (snd p) \<or> contains_sentinel_props ps)"

text \<open>The broker answers the call made for a transformable with data that has a plaintext.\<close>

definition yields_plaintext :: "(request \<Rightarrow> broker_answer) \<Rightarrow> info \<Rightarrow> bool" where
  "yields_plaintext broker info =
     (case request_of info of
        None \<Rightarrow> False
      | Some req \<Rightarrow> (case broker req of Rejects err \<Rightarrow> False | Resolves data \<Rightarrow> plaintext_of data \<noteq> None))"

section \<open>Inputs of the repository's tests\<close>










text \<open>
  From the tests of the transformer: the sentinel value of the root password, and a broker
  that answers its resource with the plaintext \<^verbatim>\<open>toor\<close>, the resource of the user password
  with an object without the key \<^verbatim>\<open>plaintext\<close>, and refuses every other call.
\<close>

definition root_password :: "(string \<times> jsval) list" where
  "root_password = [(''type'', JStr ''generic''), (''resource'', JStr ''/v1/secret/default/kali/root/password'')]"

definition user_password :: "(string \<times> jsval) list" where
  "user_password = [(''type'', JStr ''generic''), (''resource'', JStr ''/v1/secret/default/kali/user/password'')]"

definition test_broker :: "request \<Rightarrow> broker_answer" where
  "test_broker req =
     (if req = Get (JStr ''/v1/secret/default/kali/root/password'')
      then Resolves (JObj [(''plaintext'', JStr ''toor'')])
      else if req = Get (JStr ''/v1/secret/default/kali/user/password'')
      then Resolves (JObj [(''plaintexts'', JStr ''toor'')])
      else Rejects (Error ''ECONNREFUSED''))"

chapter \<open>Properties of the code\<close>

section \<open>Association lists\<close>

lemma obj_get_obj_set: "obj_get (obj_set k v ps) k' = (if k' = k then Some v else obj_get ps k')"
  by (induction ps) auto

lemma obj_get_obj_delete: "obj_get (obj_delete k ps) k' = (if k' = k then None else obj_get ps k')"
  by (induction ps) auto

lemma obj_get_None_iff: "obj_get ps k = None \<longleftrightarrow> k \<notin> set (obj_keys ps)"
  by (induction ps) (auto simp: obj_keys_def)

lemma obj_keys_Nil [simp]: "obj_keys [] = []"
  by (simp add: obj_keys_def)

lemma set_obj_keys_obj_set: "set (obj_keys (obj_set k v ps)) = insert k (set (obj_keys ps))"
  by (induction ps) (auto simp: obj_keys_def)

lemma set_obj_keys_obj_delete: "set (obj_keys (obj_delete k ps)) = set (obj_keys ps) - {k}"
  by (induction ps) (auto simp: obj_keys_def)

section \<open>S3 fetch\<close>

text \<open>
  C8.  One fetch sends the last known etag as \<^verbatim>\<open>IfNoneMatch\<close>.  An error with code
  \<^verbatim>\<open>NotModified\<close> is reported as \<^verbatim>\<open>NO_UPDATE\<close>, one with code \<^verbatim>\<open>NoSuchKey\<close> as
  \<^verbatim>\<open>NO_EXIST\<close> (neither as an error), every other error is handed on as the error it is, and
  in these three cases the etag stays as it was; data records its \<^verbatim>\<open>ETag\<close> and returns its
  \<^verbatim>\<open>Body\<close>.
\<close>

theorem fetch_classifies:
  "IfNoneMatch (fetch_request src) = etag src \<and>
   (getObject (fetch_request src) = Failure err \<and> code err = ''NotModified''
      \<longrightarrow> fetch getObject src = (src, NO_UPDATE)) \<and>
   (getObject (fetch_request src) = Failure err \<and> code err = ''NoSuchKey''
      \<longrightarrow> fetch getObject src = (src, NO_EXIST)) \<and>
   (getObject (fetch_request src) = Failure err \<and> code err \<noteq> ''NotModified'' \<and> code err \<noteq> ''NoSuchKey''
      \<longrightarrow> fetch getObject src = (src, FetchError err)) \<and>
   (getObject (fetch_request src) = Data new_etag content
      \<longrightarrow> fetch getObject src = (src\<lparr>etag := Some new_etag\<rparr>, FetchedBody content))"
  by (simp add: fetch_def fetch_request_def)

section \<open>Consul: the health watchers\<close>

lemma hasHealthWatcher_iff: "hasHealthWatcher c n \<longleftrightarrow> n \<in> watcher_names c"
  by (simp add: hasHealthWatcher_def watcher_names_def obj_get_None_iff split: option.splits)

lemma watcher_of_None_iff: "watcher_of c n = None \<longleftrightarrow> n \<notin> watcher_names c"
  by (simp add: watcher_of_def watcher_names_def obj_get_None_iff split: option.splits)

lemma watch_health_simps:
  "watched (watch_health c i) = watched c @ [info_options i]"
  "ended (watch_health c i) = ended c"
  "properties (watch_health c i) = properties c"
  "watcher_names (watch_health c i) = insert (info_name i) (watcher_names c)"
  "watcher_of (watch_health c i) n =
     (if n = info_name i then Some (length (watched c)) else watcher_of c n)"
  by (simp_all add: watch_health_def registerHealthWatcher_def watcher_names_def watcher_of_def
      set_obj_keys_obj_set obj_get_obj_set split: option.splits)

lemma foldl_watch_health:
  "watched (foldl watch_health c is) = watched c @ map info_options is \<and>
   ended (foldl watch_health c is) = ended c \<and>
   properties (foldl watch_health c is) = properties c \<and>
   watcher_names (foldl watch_health c is) = watcher_names c \<union> info_name ` set is \<and>
   (n \<notin> info_name ` set is \<longrightarrow> watcher_of (foldl watch_health c is) n = watcher_of c n)"
  by (induction "is" arbitrary: c) (auto simp: watch_health_simps)

lemma watcher_names_okay [simp]: "watcher_names (c\<lparr>okay := b\<rparr>) = watcher_names c"
  by (simp add: watcher_names_def)

lemma watcher_of_okay [simp]: "watcher_of (c\<lparr>okay := b\<rparr>) = watcher_of c"
  by (simp add: watcher_of_def fun_eq_iff)

text \<open>
  C7, as the code has it.  A service-list change adds a health watcher for every derived name
  that has none (\<^verbatim>\<open>service-tag\<close> for each tag, or \<^verbatim>\<open>service\<close> when the tag list is empty)
  and creates none for a name that is watched already; it ends no watcher and leaves every
  watcher that was registered in place, whether or not its service is in the new mapping.
\<close>

theorem service_list_change_adds_only:
  "watcher_names (onServiceListChange data c) = watcher_names c \<union> info_name ` set (watcherInfo data) \<and>
   info_name ` set (watcherInfo data) =
     {s @ ''-'' @ t | s ts t. (s, ts) \<in> set data \<and> t \<in> set ts} \<union> {s. (s, []) \<in> set data} \<and>
   watched (onServiceListChange data c) =
     watched c @ map info_options (filter (\<lambda>i. info_name i \<notin> watcher_names c) (watcherInfo data)) \<and>
   ended (onServiceListChange data c) = ended c \<and>
   (\<forall>n \<in> watcher_names c. watcher_of (onServiceListChange data c) n = watcher_of c n)"
proof -
  let ?new = "filter (\<lambda>i. \<not> hasHealthWatcher c (info_name i)) (watcherInfo data)"
  have new: "?new = filter (\<lambda>i. info_name i \<notin> watcher_names c) (watcherInfo data)"
    by (simp add: hasHealthWatcher_iff)
  have names: "watcher_names c \<union> info_name ` set ?new = watcher_names c \<union> info_name ` set (watcherInfo data)"
    by (auto simp: hasHealthWatcher_iff)
  have derived: "info_name ` set (watcherInfo data) =
     {s @ ''-'' @ t | s ts t. (s, ts) \<in> set data \<and> t \<in> set ts} \<union> {s. (s, []) \<in> set data}"
    by (force simp: watcherInfo_def service_watcher_info_def image_iff split: if_splits)
  have kept: "watcher_of (foldl watch_health c ?new) n = watcher_of c n" if "n \<in> watcher_names c" for n
  proof -
    from that have "n \<notin> info_name ` set ?new"
      by (auto simp: hasHealthWatcher_iff)
    then show ?thesis
      using foldl_watch_health [of c ?new n] by simp
  qed
  show ?thesis
    using foldl_watch_health [of c ?new] names derived kept
    by (simp add: onServiceListChange_def new)
qed

theorem fetch_classifies_witness:
  "fetch (\<lambda>r. Failure \<lparr>code = ''NotModified'', message = ''''\<rparr>)
      \<lparr>options = [], bucket = JStr ''b'', path = JStr ''index.json'', etag = Some ''e1''\<rparr> =
     (\<lparr>options = [], bucket = JStr ''b'', path = JStr ''index.json'', etag = Some ''e1''\<rparr>, NO_UPDATE) \<and>
   fetch (\<lambda>r. Failure \<lparr>code = ''NoSuchKey'', message = ''''\<rparr>)
      \<lparr>options = [], bucket = JStr ''b'', path = JStr ''index.json'', etag = Some ''e1''\<rparr> =
     (\<lparr>options = [], bucket = JStr ''b'', path = JStr ''index.json'', etag = Some ''e1''\<rparr>, NO_EXIST) \<and>
   fetch (\<lambda>r. Failure \<lparr>code = ''UnknownEndpoint'', message = ''down''\<rparr>)
      \<lparr>options = [], bucket = JStr ''b'', path = JStr ''index.json'', etag = Some ''e1''\<rparr> =
     (\<lparr>options = [], bucket = JStr ''b'', path = JStr ''index.json'', etag = Some ''e1''\<rparr>,
      FetchError \<lparr>code = ''UnknownEndpoint'', message = ''down''\<rparr>) \<and>
   fetch (\<lambda>r. if IfNoneMatch r = Some ''e2'' then Failure \<lparr>code = ''NotModified'', message = ''''\<rparr>
                 else Data ''e2'' ''{}'')
      \<lparr>options = [], bucket = JStr ''b'', path = JStr ''index.json'', etag = Some ''e1''\<rparr> =
     (\<lparr>options = [], bucket = JStr ''b'', path = JStr ''index.json'', etag = Some ''e2''\<rparr>, FetchedBody ''{}'')"
proof -
  let ?src = "\<lparr>options = [], bucket = JStr ''b'', path = JStr ''index.json'', etag = Some ''e1''\<rparr>"
  have 1: "fetch (\<lambda>r. Failure \<lparr>code = ''NotModified'', message = ''''\<rparr>) ?src = (?src, NO_UPDATE)"
    using fetch_classifies [of ?src "\<lambda>r. Failure \<lparr>code = ''NotModified'', message = ''''\<rparr>"
        "\<lparr>code = ''NotModified'', message = ''''\<rparr>"]
    by simp
  have 2: "fetch (\<lambda>r. Failure \<lparr>code = ''NoSuchKey'', message = ''''\<rparr>) ?src = (?src, NO_EXIST)"
    using fetch_classifies [of ?src "\<lambda>r. Failure \<lparr>code = ''NoSuchKey'', message = ''''\<rparr>"
        "\<lparr>code = ''NoSuchKey'', message = ''''\<rparr>"]
    by simp
  have 3: "fetch (\<lambda>r. Failure \<lparr>code = ''UnknownEndpoint'', message = ''down''\<rparr>) ?src =
      (?src, FetchError \<lparr>code = ''UnknownEndpoint'', message = ''down''\<rparr>)"
    using fetch_classifies [of ?src "\<lambda>r. Failure \<lparr>code = ''UnknownEndpoint'', message = ''down''\<rparr>"
        "\<lparr>code = ''UnknownEndpoint'', message = ''down''\<rparr>"]
    by simp
  have 4: "fetch (\<lambda>r. if IfNoneMatch r = Some ''e2'' then Failure \<lparr>code = ''NotModified'', message = ''''\<rparr>
                 else Data ''e2'' ''{}'') ?src = (?src\<lparr>etag := Some ''e2''\<rparr>, FetchedBody ''{}'')"
    using fetch_classifies [of ?src "\<lambda>r. if IfNoneMatch r = Some ''e2'' then Failure \<lparr>code = ''NotModified'', message = ''''\<rparr>
                 else Data ''e2'' ''{}''" _ "''e2''" "''{}''"]
    by simp
  from 1 2 3 4 show ?thesis
    by simp
qed

lemmas consul_defs =
  onServiceListChange_def watcherInfo_def service_watcher_info_def hasHealthWatcher_def
  watch_health_def registerHealthWatcher_def unregisterHealthWatcher_def new_Consul_def
  watcher_names_def watcher_of_def obj_keys_def onHealthServiceChange_def pushed_address_def
  truthy_address_def

theorem service_list_change_adds_only_witness:
  "watcher_names (onServiceListChange [(''web'', [''a'', ''b'']), (''db'', [])]
      (onServiceListChange [(''db'', [])] new_Consul)) = {''db'', ''web-a'', ''web-b''} \<and>
   watched (onServiceListChange [(''web'', [''a'', ''b'']), (''db'', [])]
      (onServiceListChange [(''db'', [])] new_Consul)) =
     [\<lparr>passing = True, service = ''db'', tag = None\<rparr>,
      \<lparr>passing = True, service = ''web'', tag = Some ''a''\<rparr>,
      \<lparr>passing = True, service = ''web'', tag = Some ''b''\<rparr>] \<and>
   ended (onServiceListChange [(''web'', [''a'', ''b'']), (''db'', [])]
      (onServiceListChange [(''db'', [])] new_Consul)) = [] \<and>
   watcher_of (onServiceListChange [(''web'', [''a'', ''b'']), (''db'', [])]
      (onServiceListChange [(''db'', [])] new_Consul)) ''db'' = Some 0"
proof -
  let ?c = "onServiceListChange [(''db'', [])] new_Consul"
  let ?d = "[(''web'', [''a'', ''b'']), (''db'', [])]"
  have c: "watcher_names ?c = {''db''}" "watched ?c = [\<lparr>passing = True, service = ''db'', tag = None\<rparr>]"
    "ended ?c = []" "watcher_of ?c ''db'' = Some 0"
    by (simp_all add: consul_defs)
  have i: "watcherInfo ?d =
    [\<lparr>info_name = ''web-a'', info_options = \<lparr>passing = True, service = ''web'', tag = Some ''a''\<rparr>\<rparr>,
     \<lparr>info_name = ''web-b'', info_options = \<lparr>passing = True, service = ''web'', tag = Some ''b''\<rparr>\<rparr>,
     \<lparr>info_name = ''db'', info_options = \<lparr>passing = True, service = ''db'', tag = None\<rparr>\<rparr>]"
    by (simp add: watcherInfo_def service_watcher_info_def)
  note t = service_list_change_adds_only [of ?d ?c]
  from t have "watcher_names (onServiceListChange ?d ?c) = watcher_names ?c \<union> info_name ` set (watcherInfo ?d)"
    by (rule conjunct1)
  then have names: "watcher_names (onServiceListChange ?d ?c) = {''db'', ''web-a'', ''web-b''}"
    by (auto simp: c i)
  from t have "watched (onServiceListChange ?d ?c) =
      watched ?c @ map info_options (filter (\<lambda>i. info_name i \<notin> watcher_names ?c) (watcherInfo ?d))"
    by blast
  then have w: "watched (onServiceListChange ?d ?c) =
     [\<lparr>passing = True, service = ''db'', tag = None\<rparr>,
      \<lparr>passing = True, service = ''web'', tag = Some ''a''\<rparr>,
      \<lparr>passing = True, service = ''web'', tag = Some ''b''\<rparr>]"
    by (simp add: c i)
  from t have e: "ended (onServiceListChange ?d ?c) = []"
    by (simp add: c)
  from t have "\<forall>n \<in> watcher_names ?c. watcher_of (onServiceListChange ?d ?c) n = watcher_of ?c n"
    by blast
  then have k: "watcher_of (onServiceListChange ?d ?c) ''db'' = Some 0"
    by (simp add: c)
  from names w e k show ?thesis
    by blast
qed

text \<open>
  The claim as it stands fails: after the mapping \<^verbatim>\<open>{old: []}\<close> is replaced by
  \<^verbatim>\<open>{new: []}\<close>, the watcher of \<^verbatim>\<open>old\<close> is still registered and was not ended, although
  \<^verbatim>\<open>old\<close> is not a name derived from the new mapping.
\<close>

theorem service_list_change_keeps_absent_counterexample:
  "hasHealthWatcher
     (onServiceListChange [(''new'', [])] (onServiceListChange [(''old'', [])] new_Consul)) ''old'' \<and>
   ended (onServiceListChange [(''new'', [])] (onServiceListChange [(''old'', [])] new_Consul)) = [] \<and>
   map info_name (watcherInfo [(''new'', [])]) = [''new'']"
  by (simp add: consul_defs)

section \<open>Consul: a change of one health watcher\<close>

lemma onHealthServiceChange_nonempty:
  "data \<noteq> [] \<Longrightarrow>
   obj_get (properties (onHealthServiceChange name data c)) name =
     Some (sort (concat (map pushed_address data)))"
  by (simp add: onHealthServiceChange_def Let_def obj_get_obj_set)

lemma pushed_address_cases:
  "pushed_address info =
     (case Service_Address info of
        Some (Some s) \<Rightarrow> if s \<noteq> [] then [s] else
          (case Node_Address info of Some (Some n) \<Rightarrow> if n \<noteq> [] then [n] else [] | _ \<Rightarrow> [])
      | _ \<Rightarrow> (case Node_Address info of Some (Some n) \<Rightarrow> if n \<noteq> [] then [n] else [] | _ \<Rightarrow> []))"
  by (simp add: pushed_address_def truthy_address_def split: option.splits)

text \<open>
  C6, as the code has it.  A non-empty change for the watcher \<open>name\<close> sets
  \<^verbatim>\<open>properties[name].addresses\<close> to the addresses pushed for the entries (the entry's
  \<^verbatim>\<open>Service.Address\<close> when it is there and not empty, else its \<^verbatim>\<open>Node.Address\<close> when that
  is, else nothing), sorted ascending; every pushed address is kept, as often as it was
  pushed.  An empty change ends the watcher registered under \<open>name\<close>, unregisters it and
  removes \<^verbatim>\<open>properties[name]\<close>.
\<close>

theorem health_change_sorted_addresses:
  "(data \<noteq> [] \<longrightarrow>
      (\<exists>addresses.
         obj_get (properties (onHealthServiceChange name data c)) name = Some addresses \<and>
         sorted addresses \<and>
         mset addresses = mset (concat (map pushed_address data)))) \<and>
   obj_get (properties (onHealthServiceChange name [] c)) name = None \<and>
   watcher_of (onHealthServiceChange name [] c) name = None \<and>
   (\<forall>w. watcher_of c name = Some w \<longrightarrow> ended (onHealthServiceChange name [] c) = ended c @ [w])"
proof -
  have "obj_get (properties (onHealthServiceChange name [] c)) name = None"
    by (simp add: onHealthServiceChange_def Let_def obj_get_obj_delete)
  moreover have "watcher_of (onHealthServiceChange name [] c) name = None"
    by (simp add: onHealthServiceChange_def Let_def unregisterHealthWatcher_def watcher_of_def
        obj_get_obj_delete split: option.splits)
  moreover have "ended (onHealthServiceChange name [] c) = ended c @ [w]"
    if "watcher_of c name = Some w" for w
    using that
    by (auto simp: onHealthServiceChange_def Let_def unregisterHealthWatcher_def watcher_of_def
        split: option.splits)
  ultimately show ?thesis
    by (simp add: onHealthServiceChange_nonempty)
qed


lemma sorted_mset_eq_sort:
  "sorted addresses \<Longrightarrow> mset addresses = mset (xs :: string list) \<Longrightarrow> addresses = sort xs"
  by (metis mset_sort sorted_sort properties_for_sort)

theorem health_change_sorted_addresses_witness:
  "[\<lparr>Node_Address = Some (Some ''10.0.0.9''), Service_Address = Some (Some ''10.0.0.5'')\<rparr>,
    \<lparr>Node_Address = Some (Some ''10.0.0.2''), Service_Address = Some (Some '''')\<rparr>,
    \<lparr>Node_Address = None, Service_Address = None\<rparr>] \<noteq> [] \<and>
   obj_get (properties (onHealthServiceChange ''web''
     [\<lparr>Node_Address = Some (Some ''10.0.0.9''), Service_Address = Some (Some ''10.0.0.5'')\<rparr>,
      \<lparr>Node_Address = Some (Some ''10.0.0.2''), Service_Address = Some (Some '''')\<rparr>,
      \<lparr>Node_Address = None, Service_Address = None\<rparr>]
     (onServiceListChange [(''web'', [])] new_Consul))) ''web'' = Some [''10.0.0.2'', ''10.0.0.5''] \<and>
   watcher_of (onServiceListChange [(''web'', [])] new_Consul) ''web'' = Some 0 \<and>
   ended (onHealthServiceChange ''web'' [] (onServiceListChange [(''web'', [])] new_Consul)) = [0] \<and>
   watcher_of (onHealthServiceChange ''web'' [] (onServiceListChange [(''web'', [])] new_Consul)) ''web'' = None \<and>
   obj_get (properties (onHealthServiceChange ''web'' []
     (onHealthServiceChange ''web''
        [\<lparr>Node_Address = Some (Some ''10.0.0.9''), Service_Address = Some (Some ''10.0.0.5'')\<rparr>]
        (onServiceListChange [(''web'', [])] new_Consul)))) ''web'' = None"
proof -
  let ?c = "onServiceListChange [(''web'', [])] new_Consul"
  let ?d = "[\<lparr>Node_Address = Some (Some ''10.0.0.9''), Service_Address = Some (Some ''10.0.0.5'')\<rparr>,
    \<lparr>Node_Address = Some (Some ''10.0.0.2''), Service_Address = Some (Some '''')\<rparr>,
    \<lparr>Node_Address = None, Service_Address = None\<rparr>]"
  have c: "watcher_of ?c ''web'' = Some 0" "ended ?c = []"
    by (simp_all add: consul_defs)
  have p: "concat (map pushed_address ?d) = [''10.0.0.5'', ''10.0.0.2'']"
    by (simp add: pushed_address_def truthy_address_def)
  have s: "sort [''10.0.0.5'', ''10.0.0.2''] = [''10.0.0.2'', ''10.0.0.5'']"
    by code_simp
  have ne: "?d \<noteq> []"
    by simp
  note t = health_change_sorted_addresses [of ?d "''web''" ?c]
  from t [THEN conjunct1, rule_format, OF ne] obtain addresses where a:
    "obj_get (properties (onHealthServiceChange ''web'' ?d ?c)) ''web'' = Some addresses"
    "sorted addresses" "mset addresses = mset (concat (map pushed_address ?d))"
    by blast
  from a(2,3) have "addresses = sort (concat (map pushed_address ?d))"
    by (rule sorted_mset_eq_sort)
  with a(1) have r: "obj_get (properties (onHealthServiceChange ''web'' ?d ?c)) ''web'' =
      Some [''10.0.0.2'', ''10.0.0.5'']"
    by (simp only: p s)
  have e: "ended (onHealthServiceChange ''web'' [] ?c) = [0]"
    using t [THEN conjunct2, THEN conjunct2, THEN conjunct2, rule_format, OF c(1)]
    by (simp only: c(2) append_Nil)
  have w: "watcher_of (onHealthServiceChange ''web'' [] ?c) ''web'' = None"
    by (rule t [THEN conjunct2, THEN conjunct2, THEN conjunct1])
  have g: "obj_get (properties (onHealthServiceChange ''web'' []
     (onHealthServiceChange ''web''
        [\<lparr>Node_Address = Some (Some ''10.0.0.9''), Service_Address = Some (Some ''10.0.0.5'')\<rparr>] ?c))) ''web'' = None"
    by (rule health_change_sorted_addresses [THEN conjunct2, THEN conjunct1])
  from ne r c(1) e w g show ?thesis
    by (intro conjI)
qed

text \<open>
  The claim as it stands fails: two entries with the same address leave that address twice
  in \<^verbatim>\<open>properties[name].addresses\<close>; the code sorts and removes nothing.
\<close>

theorem health_change_keeps_duplicates_counterexample:
  "obj_get (properties (onHealthServiceChange ''web''
     [\<lparr>Node_Address = Some (Some ''10.0.0.9''), Service_Address = Some (Some ''10.0.0.5'')\<rparr>,
      \<lparr>Node_Address = Some (Some ''10.0.0.5''), Service_Address = None\<rparr>]
     new_Consul)) ''web'' = Some [''10.0.0.5'', ''10.0.0.5''] \<and>
   \<not> distinct [''10.0.0.5'', ''10.0.0.5'']"
  by (simp add: consul_defs obj_get_obj_set)

section \<open>The Conqueso route\<close>

lemmas conqueso_defs =
  dispatch_def Conqueso_def Conqueso_stub_def methodNotAllowed_def allowedMethods_def
  fresh_response_def HTTP_OK_def HTTP_METHOD_NOT_ALLOWED_def

text \<open>
  C9, as the code has it.  On the route \<^verbatim>\<open>/v1/conqueso*\<close>, every method other than GET, POST,
  PUT and OPTIONS (HEAD among them) is answered with status 405 and the header
  \<^verbatim>\<open>Allow: GET,POST,PUT,OPTIONS\<close>.  POST and PUT are answered with status 200 and no
  \<^verbatim>\<open>Allow\<close> header, OPTIONS with status 200 and the \<^verbatim>\<open>Allow\<close> header, and GET with status 200
  and the properties as text.
\<close>

theorem conqueso_other_methods_405:
  "(m \<notin> {GET, POST, PUT, OPTIONS} \<longrightarrow>
      dispatch (Conqueso properties_text) m =
        Some \<lparr>status = 405, headers = [(''Allow'', ''GET,POST,PUT,OPTIONS'')], body = []\<rparr>) \<and>
   (m \<in> {POST, PUT} \<longrightarrow>
      dispatch (Conqueso properties_text) m = Some \<lparr>status = 200, headers = [], body = []\<rparr>) \<and>
   dispatch (Conqueso properties_text) OPTIONS =
     Some \<lparr>status = 200, headers = [(''Allow'', ''GET,POST,PUT,OPTIONS'')], body = []\<rparr> \<and>
   dispatch (Conqueso properties_text) GET =
     Some \<lparr>status = 200, headers = [(''Content-Type'', ''text/plain'')], body = properties_text\<rparr>"
  by (cases m) (simp_all add: conqueso_defs)

theorem conqueso_other_methods_405_witness:
  "DELETE \<notin> {GET, POST, PUT, OPTIONS} \<and>
   dispatch (Conqueso ''a=1'') DELETE =
     Some \<lparr>status = 405, headers = [(''Allow'', ''GET,POST,PUT,OPTIONS'')], body = []\<rparr> \<and>
   HEAD \<notin> {GET, POST, PUT, OPTIONS} \<and>
   dispatch (Conqueso ''a=1'') HEAD =
     Some \<lparr>status = 405, headers = [(''Allow'', ''GET,POST,PUT,OPTIONS'')], body = []\<rparr> \<and>
   PUT \<in> {POST, PUT} \<and>
   dispatch (Conqueso ''a=1'') PUT = Some \<lparr>status = 200, headers = [], body = []\<rparr>"
proof -
  have d: "DELETE \<notin> {GET, POST, PUT, OPTIONS}" and h: "HEAD \<notin> {GET, POST, PUT, OPTIONS}"
    and p: "PUT \<in> {POST, PUT}"
    by simp_all
  note t = conqueso_other_methods_405 [of _ "''a=1''"]
  from d h p
    t [of DELETE, THEN conjunct1, rule_format, OF d]
    t [of HEAD, THEN conjunct1, rule_format, OF h]
    t [of PUT, THEN conjunct2, THEN conjunct1, rule_format, OF p]
  show ?thesis
    by (intro conjI)
qed

text \<open>
  The claim as it stands fails: POST is a method other than GET and is answered with status
  200 and no \<^verbatim>\<open>Allow\<close> header, by the route that serves the properties and by the earlier
  form of the module alike.
\<close>

theorem conqueso_post_is_200_counterexample:
  "dispatch (Conqueso ''a=1'') POST = Some \<lparr>status = 200, headers = [], body = []\<rparr> \<and>
   dispatch Conqueso_stub POST = Some \<lparr>status = 200, headers = [], body = []\<rparr>"
  by (simp add: conqueso_defs)

text \<open>The earlier form of the module answers three methods and no other.\<close>

lemma Conqueso_stub_methods:
  "dispatch Conqueso_stub m =
     (if m = POST \<or> m = PUT then Some \<lparr>status = 200, headers = [], body = []\<rparr>
      else if m = DELETE then Some \<lparr>status = 405, headers = [(''Allow'', ''POST,PUT'')], body = []\<rparr>
      else None)"
  by (cases m) (simp_all add: conqueso_defs)

section \<open>The plugin manager: registering sources\<close>

lemma error_events_append [simp]: "error_events (xs @ ys) = error_events xs @ error_events ys"
  by (induction xs rule: error_events.induct) simp_all

lemma registered_events_append [simp]:
  "registered_events (xs @ ys) = registered_events xs @ registered_events ys"
  by (induction xs rule: registered_events.induct) simp_all









section \<open>The plugin manager: the reload\<close>












section \<open>The secret transformer: collecting\<close>

lemma no_sentinel_collects_nothing:
  "\<not> contains_sentinel t \<Longrightarrow> collectTransformables t kp = Inr []"
  "\<not> contains_sentinel_props ps \<Longrightarrow> collect_props ps kp = Inr []"
  by (induction t kp and ps kp rule: collectTransformables_collect_props.induct) auto

lemma info_keyPath_set [simp]:
  "info_keyPath (obj_set ''keyPath'' (JArr (map JStr kp)) m) = kp"
  by (simp add: info_keyPath_def obj_get_obj_set comp_def)

text \<open>Every transformable found below a key path carries a key path that extends it; one
  found by the walk over the properties of a mapping extends it by one of their keys.\<close>

lemma collected_keyPaths:
  "collectTransformables t kp = Inr infos \<Longrightarrow> \<forall>i \<in> set infos. \<exists>rest. info_keyPath i = kp @ rest"
  "collect_props ps kp = Inr infos \<Longrightarrow>
     \<forall>i \<in> set infos. \<exists>k rest. k \<in> set (obj_keys ps) \<and> info_keyPath i = kp @ k # rest"
proof (induction t kp and ps kp arbitrary: infos and infos rule: collectTransformables_collect_props.induct)
  case (1 ps keyPath)
  show ?case
  proof (cases "obj_keys ps = [''$tokend'']")
    case True
    with "1.prems" show ?thesis
      by (auto simp: map_sum_def split: sum.splits)
  next
    case False
    with "1.prems" have "collect_props ps keyPath = Inr infos"
      by simp
    from "1.IH" [OF False this] show ?thesis
      by fastforce
  qed
next
  case (9 p ps keyPath)
  show ?case
  proof (cases "isPlainObject (snd p)")
    case False
    with "9.prems" have "collect_props ps keyPath = Inr infos"
      by simp
    from "9.IH"(3) [OF False this] show ?thesis
      by (fastforce simp: obj_keys_def)
  next
    case True
    with "9.prems" obtain found others where f:
      "collectTransformables (snd p) (keyPath @ [fst p]) = Inr found"
      "collect_props ps keyPath = Inr others" "infos = found @ others"
      by (auto split: sum.splits)
    from "9.IH"(1) [OF True f(1)]
    have 1: "\<forall>i \<in> set found. \<exists>rest. info_keyPath i = keyPath @ fst p # rest"
      by simp
    from "9.IH"(2) [OF True f(1) f(2)]
    have 2: "\<forall>i \<in> set others. \<exists>k rest. k \<in> set (obj_keys ps) \<and> info_keyPath i = keyPath @ k # rest"
      by simp
    show ?thesis
    proof
      fix i
      assume "i \<in> set infos"
      with f(3) consider "i \<in> set found" | "i \<in> set others"
        by auto
      then show "\<exists>k rest. k \<in> set (obj_keys (p # ps)) \<and> info_keyPath i = keyPath @ k # rest"
      proof cases
        case 1
        with \<open>\<forall>i \<in> set found. \<exists>rest. info_keyPath i = keyPath @ fst p # rest\<close>
        show ?thesis
          by (auto simp: obj_keys_def)
      next
        case 2
        with \<open>\<forall>i \<in> set others. \<exists>k rest. k \<in> set (obj_keys ps) \<and> info_keyPath i = keyPath @ k # rest\<close>
        show ?thesis
          by (fastforce simp: obj_keys_def)
      qed
    qed
  qed
qed simp_all

text \<open>
  C10.  For \<^verbatim>\<open>null\<close>, for \<^verbatim>\<open>undefined\<close> and for every tree that holds no mapping whose sole
  key is \<^verbatim>\<open>$tokend\<close>, \<open>transform\<close> resolves to the empty mapping, calls no broker and leaves
  the cache as it is, whatever else the tree holds.  A mapping that has other keys beside
  \<^verbatim>\<open>$tokend\<close> is walked like any other mapping: no transformable is recorded at its own key
  path, only below one of its keys.
\<close>

theorem transform_without_sentinel_is_empty:
  "(\<not> contains_sentinel t \<longrightarrow>
      transform broker cache0 t = \<lparr>result = Resolved (JObj []), cache = cache0, calls = []\<rparr>) \<and>
   transform broker cache0 JNull = \<lparr>result = Resolved (JObj []), cache = cache0, calls = []\<rparr> \<and>
   transform broker cache0 JUndefined = \<lparr>result = Resolved (JObj []), cache = cache0, calls = []\<rparr> \<and>
   (obj_keys ps \<noteq> [''$tokend''] \<longrightarrow>
      collectTransformables (JObj ps) kp = collect_props ps kp \<and>
      (\<forall>infos. collectTransformables (JObj ps) kp = Inr infos \<longrightarrow>
         (\<forall>i \<in> set infos. \<exists>k rest. k \<in> set (obj_keys ps) \<and> info_keyPath i = kp @ k # rest)))"
proof -
  have 1: "transform broker cache0 t = \<lparr>result = Resolved (JObj []), cache = cache0, calls = []\<rparr>"
    if "\<not> contains_sentinel t"
    using no_sentinel_collects_nothing(1) [OF that, of "[]"] by (simp add: transform_def)
  have 2: "\<forall>i \<in> set infos. \<exists>k rest. k \<in> set (obj_keys ps) \<and> info_keyPath i = kp @ k # rest"
    if "obj_keys ps \<noteq> [''$tokend'']" and "collectTransformables (JObj ps) kp = Inr infos" for infos
    using that collected_keyPaths(2) [of ps kp infos] by simp
  from 1 2 show ?thesis
    by (simp add: transform_def)
qed

theorem transform_without_sentinel_is_empty_witness:
  "\<not> contains_sentinel (JObj [(''key'', JStr ''value''), (''nested'', JObj [(''list'', JArr [JNum 1, JNull])])]) \<and>
   transform test_broker []
     (JObj [(''key'', JStr ''value''), (''nested'', JObj [(''list'', JArr [JNum 1, JNull])])]) =
     \<lparr>result = Resolved (JObj []), cache = [], calls = []\<rparr> \<and>
   obj_keys [(''$tokend'', JObj [(''$tokend'', JObj root_password)]), (''other'', JNum 1)] \<noteq> [''$tokend''] \<and>
   collectTransformables
     (JObj [(''$tokend'', JObj [(''$tokend'', JObj root_password)]), (''other'', JNum 1)]) [] =
     Inr [obj_set ''keyPath'' (JArr [JStr ''$tokend'']) root_password] \<and>
   (\<exists>k rest. k \<in> set (obj_keys [(''$tokend'', JObj [(''$tokend'', JObj root_password)]), (''other'', JNum 1)]) \<and>
      info_keyPath (obj_set ''keyPath'' (JArr [JStr ''$tokend'']) root_password) = [] @ k # rest)"
proof -
  let ?t = "JObj [(''key'', JStr ''value''), (''nested'', JObj [(''list'', JArr [JNum 1, JNull])])]"
  let ?ps = "[(''$tokend'', JObj [(''$tokend'', JObj root_password)]), (''other'', JNum 1)]"
  let ?i = "obj_set ''keyPath'' (JArr [JStr ''$tokend'']) root_password"
  note t = transform_without_sentinel_is_empty [of ?t test_broker "[]" ?ps "[]"]
  have a: "\<not> contains_sentinel ?t"
    by (simp add: obj_keys_def)
  from t a have 1: "transform test_broker [] ?t = \<lparr>result = Resolved (JObj []), cache = [], calls = []\<rparr>"
    by blast
  have b: "obj_keys ?ps \<noteq> [''$tokend'']"
    by (simp add: obj_keys_def)
  have c: "collectTransformables (JObj ?ps) [] = Inr [?i]"
    by (simp add: obj_keys_def root_password_def)
  from t b have "\<forall>infos. collectTransformables (JObj ?ps) [] = Inr infos \<longrightarrow>
      (\<forall>i \<in> set infos. \<exists>k rest. k \<in> set (obj_keys ?ps) \<and> info_keyPath i = [] @ k # rest)"
    by blast
  with c have "\<forall>i \<in> set [?i]. \<exists>k rest. k \<in> set (obj_keys ?ps) \<and> info_keyPath i = [] @ k # rest"
    by blast
  then have 2: "\<exists>k rest. k \<in> set (obj_keys ?ps) \<and> info_keyPath ?i = [] @ k # rest"
    by simp
  from a 1 b c 2 show ?thesis
    by (intro conjI)
qed

section \<open>The secret transformer: the cache\<close>






lemmas tokend_defs =
  transform_def resolved_overlay_def resolved_value_def cache_after_def issued_def cache_hit_def
  request_of_def info_get_def plaintext_of_def mergeDeep_def yields_plaintext_def
  root_password_def user_password_def test_broker_def obj_keys_def js_prop_def map_sum_def







section \<open>The secret transformer: failures\<close>

lemma merge_all_maps:
  "\<forall>v \<in> set vs. \<exists>b. v = IMap b \<Longrightarrow> \<exists>m. merge_all acc vs = Inr m"
  by (induction vs arbitrary: acc) (auto simp: mergeDeep_def)

lemma transform_throws_iff:
  "result (transform broker c t) = Throws e \<longleftrightarrow> collectTransformables t [] = Inl e"
  by (auto simp: transform_def split: sum.splits)

lemma transform_resolves:
  assumes "obj_keys ps \<noteq> [''$tokend'']" and "collect_props ps [] = Inr infos"
  shows "\<exists>v. result (transform broker c (JObj ps)) = Resolved v"
proof -
  from assms have infos: "collectTransformables (JObj ps) [] = Inr infos"
    by simp
  have "\<exists>b. resolved_overlay broker c i = IMap b" if "i \<in> set infos" for i
  proof -
    from collected_keyPaths(2) [OF assms(2)] that obtain k rest where "info_keyPath i = k # rest"
      by fastforce
    then show ?thesis
      by (simp add: resolved_overlay_def)
  qed
  then have "\<forall>v \<in> set (map (resolved_overlay broker c) infos). \<exists>b. v = IMap b"
    by auto
  from merge_all_maps [OF this] obtain m
    where "merge_all [] (map (resolved_overlay broker c) infos) = Inr m" ..
  then show ?thesis
    by (simp add: transform_def infos del: collectTransformables.simps)
qed

lemma transform_degrades_to_null:
  "result (transform (\<lambda>req. Rejects (Error ''ECONNREFUSED'')) []
     (JObj [(''password'', JObj [(''$tokend'', JObj root_password)])])) =
     Resolved (JObj [(''password'', JNull)])"
  "result (transform (\<lambda>req. Resolves (JObj [])) []
     (JObj [(''password'', JObj [(''$tokend'', JObj root_password)])])) =
     Resolved (JObj [(''password'', JNull)])"
  "result (transform test_broker []
     (JObj [(''password'', JObj [(''$tokend'', JObj [(''type'', JStr ''pokemon'')])])])) =
     Resolved (JObj [(''password'', JNull)])"
  by (simp_all add: tokend_defs info_keyPath_def)


text \<open>
  C1 fails on the code at a sentinel whose value is a boolean (or a number or a string):
  \<^verbatim>\<open>Immutable.OrderedMap\<close> throws a \<^verbatim>\<open>TypeError\<close> in \<open>collectTransformables\<close>, before any
  promise exists, and \<open>transform\<close> throws it to its caller instead of resolving to an overlay
  with \<^verbatim>\<open>null\<close> at the key path \<^verbatim>\<open>password\<close>.
\<close>

theorem transform_throws_on_boolean_sentinel:
  "transform broker c (JObj [(''password'', JObj [(''$tokend'', JBool True)])]) =
     \<lparr>result = Throws TypeError, cache = c, calls = []\<rparr>"
  by (simp add: transform_def obj_keys_def)

end
